theory Spec2Isabelle
  imports Complex_Main "HOL-Library.Multiset"
begin

section \<open>Python values used by taq\_import.py\<close>

text \<open>
  Python integers are unbounded and are modelled as \<^typ>\<open>int\<close>.  Elapsed times are
  Python floats in the source; they are modelled as rationals, so rounding is not
  represented.  Every exception the modelled code can raise is a value of
  \<open>py_error\<close>.
\<close>

datatype py_error =
    ZeroDivisionError
  | ValueError
  | FileNotFoundError
  | CalledProcessError
  | UnicodeDecodeError

text \<open>\<open>a // b\<close>: floor division, raising on a zero divisor.\<close>

definition floordiv :: "int \<Rightarrow> int \<Rightarrow> py_error + int" where
  "floordiv a b = (if b = 0 then Inl ZeroDivisionError else Inr (a div b))"

text \<open>\<open>range(n)\<close> for an integer \<open>n\<close>: empty when \<open>n \<le> 0\<close>.\<close>

definition py_range :: "int \<Rightarrow> int list" where
  "py_range n = [0..n - 1]"

text \<open>The decimal text of an integer, as an f-string formats it.\<close>

definition digit :: "nat \<Rightarrow> char" where
  "digit d = ''0123456789'' ! d"

fun str_nat :: "nat \<Rightarrow> string" where
  "str_nat n = (if n < 10 then [digit n] else str_nat (n div 10) @ [digit (n mod 10)])"

declare str_nat.simps [simp del]

definition str :: "int \<Rightarrow> string" where
  "str i = (if i < 0 then CHR ''-'' # str_nat (nat (- i)) else str_nat (nat i))"

text \<open>
  \<open>b.decode()\<close> for a bytes value \<open>b\<close>: strict UTF-8.  A \<^typ>\<open>char\<close> is one
  byte, so bytes are a \<^typ>\<open>string\<close>, and so is the decoded text, kept in its UTF-8
  encoding.  The byte sequences accepted are the well-formed ones: no stray or missing
  continuation byte, no overlong form, no surrogate, nothing above U+10FFFF.
\<close>

definition continuation :: "nat \<Rightarrow> bool" where
  "continuation b = (128 \<le> b \<and> b \<le> 191)"

fun valid_utf8 :: "nat list \<Rightarrow> bool" where
  "valid_utf8 [] = True"
| "valid_utf8 (b # bs) =
     (if b < 128 then valid_utf8 bs
      else if 194 \<le> b \<and> b \<le> 223 then
        (case bs of
           c1 # r \<Rightarrow> continuation c1 \<and> valid_utf8 r
         | _ \<Rightarrow> False)
      else if 224 \<le> b \<and> b \<le> 239 then
        (case bs of
           c1 # c2 # r \<Rightarrow>
             (if b = 224 then 160 \<le> c1 \<and> c1 \<le> 191
              else if b = 237 then 128 \<le> c1 \<and> c1 \<le> 159
              else continuation c1)
             \<and> continuation c2 \<and> valid_utf8 r
         | _ \<Rightarrow> False)
      else if 240 \<le> b \<and> b \<le> 244 then
        (case bs of
           c1 # c2 # c3 # r \<Rightarrow>
             (if b = 240 then 144 \<le> c1 \<and> c1 \<le> 191
              else if b = 244 then 128 \<le> c1 \<and> c1 \<le> 143
              else continuation c1)
             \<and> continuation c2 \<and> continuation c3 \<and> valid_utf8 r
         | _ \<Rightarrow> False)
      else False)"

definition decode :: "string \<Rightarrow> py_error + string" where
  "decode b = (if valid_utf8 (map of_char b) then Inr b else Inl UnicodeDecodeError)"

section \<open>The file system and the shell commands\<close>

text \<open>
  A file system maps a path to the lines of the regular file stored there.  The
  program reaches it only through \<open>os.path.exists\<close>, \<open>os.remove\<close> and three shell
  commands, \<open>sed '1d;$d' F > /tmp/taq_clean\<close>, \<open>wc -l < /tmp/taq_clean\<close> and
  \<open>sed -n 'S,Ep' /tmp/taq_clean > C\<close>.  The shell opens and truncates the target of
  \<open>>\<close> before the command reads its input.  Directories, permissions and a full
  disk are not represented: every path is either absent or a readable and writable
  text file, and \<open>/tmp\<close> can be written.
\<close>

type_synonym fs = "string \<rightharpoonup> string list"

text \<open>\<open>sed '1d;$d'\<close>: drop the first and the last line.\<close>

definition sed_1d_last_d :: "string list \<Rightarrow> string list" where
  "sed_1d_last_d ls = butlast (tl ls)"

text \<open>
  \<open>sed -n 'a,bp'\<close>.  A range starts at line \<open>a\<close>; when the second address is a number
  not greater than the line that opened the range, only that one line is selected
  (POSIX sed, and GNU sed alike), also when the second address is 0.  A first address
  of 0 and a negative number in either place are rejected by sed, which then prints
  nothing.
\<close>

definition sed_n_p :: "int \<Rightarrow> int \<Rightarrow> string list \<Rightarrow> string list" where
  "sed_n_p a b ls =
     (if a < 1 \<or> b < 0 then []
      else if b \<le> a then take 1 (drop (nat (a - 1)) ls)
      else take (nat (b - a + 1)) (drop (nat (a - 1)) ls))"

text \<open>
  \<open>os.system(f"sed SCRIPT 'INP' > OUT")\<close>, for a path \<open>INP\<close> that the shell and sed
  take as the name of a file.
\<close>

definition os_system_sed :: "(string list \<Rightarrow> string list) \<Rightarrow> string \<Rightarrow> string \<Rightarrow> fs \<Rightarrow> fs" where
  "os_system_sed script inp out fsys =
     (let truncated = fsys(out \<mapsto> [])
      in truncated(out \<mapsto> (case truncated inp of None \<Rightarrow> [] | Some ls \<Rightarrow> script ls)))"

text \<open>
  Line 65 puts the source path between single quotes on a command line.  The shell and
  sed read it as that file's name when it is not empty, holds no single quote (which
  would end the quoted word) and does not start with a dash (which sed would read as
  an option).  The two paths of lines 69 and 81 are fixed and plain.
\<close>

definition plain_path :: "string \<Rightarrow> bool" where
  "plain_path p = (p \<noteq> [] \<and> hd p \<noteq> CHR ''-'' \<and> CHR 0x27 \<notin> set p)"

text \<open>\<open>int(subprocess.check_output("wc -l < P", shell=True).decode().strip())\<close>.\<close>

definition wc_l :: "string \<Rightarrow> fs \<Rightarrow> py_error + int" where
  "wc_l p fsys = (case fsys p of None \<Rightarrow> Inl CalledProcessError | Some ls \<Rightarrow> Inr (int (length ls)))"

definition os_remove :: "string \<Rightarrow> fs \<Rightarrow> py_error + fs" where
  "os_remove p fsys = (case fsys p of None \<Rightarrow> Inl FileNotFoundError | Some _ \<Rightarrow> Inr (fsys(p := None)))"

section \<open>The splitter (lines 65 to 82 of main)\<close>

definition clean_path :: string where
  "clean_path = ''/tmp/taq_clean''"

definition chunk_file_name :: "int \<Rightarrow> string" where
  "chunk_file_name i = ''/tmp/taq_chunk_'' @ str i @ ''.csv''"

text \<open>The pair \<open>(start, end)\<close> of lines 77 and 78, for loop index \<open>i\<close>.\<close>

definition chunk_range :: "int \<Rightarrow> int \<Rightarrow> int \<Rightarrow> int \<Rightarrow> int \<times> int" where
  "chunk_range num_chunks chunk_size total_lines i =
     (let start = i * chunk_size + 1;
          end' = (if i < num_chunks - 1 then (i + 1) * chunk_size else total_lines)
      in (start, end'))"

text \<open>The ranges of the whole loop, given the chunk size of line 70.\<close>

definition chunk_ranges :: "int \<Rightarrow> int \<Rightarrow> int \<Rightarrow> (int \<times> int) list" where
  "chunk_ranges num_chunks chunk_size total_lines =
     map (chunk_range num_chunks chunk_size total_lines) (py_range num_chunks)"

text \<open>Lines 70 and 76 to 78 together: the division may raise.\<close>

definition split_ranges :: "int \<Rightarrow> int \<Rightarrow> py_error + (int \<times> int) list" where
  "split_ranges num_chunks total_lines =
     (case floordiv total_lines num_chunks of
        Inl e \<Rightarrow> Inl e
      | Inr chunk_size \<Rightarrow> Inr (chunk_ranges num_chunks chunk_size total_lines))"

text \<open>The line numbers an inclusive 1-indexed range denotes, and how many they are.\<close>

definition range_lines :: "int \<times> int \<Rightarrow> int set" where
  "range_lines r = {fst r..snd r}"

definition range_size :: "int \<times> int \<Rightarrow> int" where
  "range_size r = snd r - fst r + 1"

text \<open>The loop of lines 76 to 82, threading the file system and \<open>chunk_files\<close>.\<close>

fun create_chunks :: "int \<Rightarrow> int \<Rightarrow> int \<Rightarrow> int list \<Rightarrow> fs \<times> string list \<Rightarrow> fs \<times> string list" where
  "create_chunks num_chunks chunk_size total_lines [] st = st"
| "create_chunks num_chunks chunk_size total_lines (i # rest) (fsys, chunk_files) =
     (let (start, end') = chunk_range num_chunks chunk_size total_lines i;
          chunk_file = chunk_file_name i;
          fsys' = os_system_sed (sed_n_p start end') clean_path chunk_file fsys
      in create_chunks num_chunks chunk_size total_lines rest (fsys', chunk_files @ [chunk_file]))"

section \<open>The workers (import\_chunk and the pool, lines 10 to 38 and 86 to 89)\<close>

text \<open>
  A \<open>world\<close> is what the program can change: the files, the list of chunk files
  handed to the loader (one entry for each \<open>psql\<close> process started), and the lines
  that main prints after the pool has returned.  A printed line is kept as the values
  it is formatted from; progress lines that carry only a time stamp are left out.
\<close>

datatype line =
    ErrorNotExist string
  | TotalChunks int
  | SuccessfulChunks int
  | FailedChunks int
  | AverageTime rat
  | DetailedResults
  | ChunkLine int string rat
  | CleaningUp
  | FilesKept

record world =
  files :: fs
  psql_calls :: "string list"
  stdout :: "line list"

record chunk_result =
  chunk :: int
  "file" :: string
  status :: string
  time :: rat
  result :: int

text \<open>
  The loader is outside the program: \<open>psql f\<close> is the return code of the \<open>psql\<close>
  process on chunk file \<open>f\<close>, the bytes it wrote to its standard error, and the
  elapsed time measured around it.
\<close>

type_synonym loader = "string \<Rightarrow> int \<times> string \<times> rat"

text \<open>
  import\_chunk.  On a return code other than 0, line 27 decodes the standard error
  before the result is built, and the decoding may raise.  What the worker prints is
  left out.
\<close>

definition import_chunk ::
  "loader \<Rightarrow> int \<times> string \<times> int \<Rightarrow> world \<Rightarrow> (py_error + chunk_result) \<times> world" where
  "import_chunk psql args w =
     (case args of (chunk_index, chunk_file, total_chunks) \<Rightarrow>
        (let (returncode, stderr, elapsed_time) = psql chunk_file;
             w1 = w\<lparr>psql_calls := psql_calls w @ [chunk_file]\<rparr>
         in if returncode = 0 then
              (Inr \<lparr>chunk = chunk_index + 1, file = chunk_file, status = ''SUCCESS'',
                    time = elapsed_time, result = returncode\<rparr>, w1)
            else
              (case decode stderr of
                 Inl e \<Rightarrow> (Inl e, w1)
               | Inr error_output \<Rightarrow>
                   (Inr \<lparr>chunk = chunk_index + 1, file = chunk_file, status = ''FAILED'',
                         time = elapsed_time, result = returncode\<rparr>, w1))))"

text \<open>
  \<open>p.map(import_chunk, chunk_args)\<close>: one call for each argument.  Every call runs to
  its end; then the results are returned in argument order, or, if a call raised, the
  exception is raised again in main.
\<close>

fun pool_map ::
  "loader \<Rightarrow> (int \<times> string \<times> int) list \<Rightarrow> world \<Rightarrow> (py_error + chunk_result list) \<times> world" where
  "pool_map psql [] w = (Inr [], w)"
| "pool_map psql (a # rest) w =
     (let (r, w1) = import_chunk psql a w;
          (rs, w2) = pool_map psql rest w1
      in (case r of
            Inl e \<Rightarrow> (Inl e, w2)
          | Inr x \<Rightarrow>
              (case rs of
                 Inl e \<Rightarrow> (Inl e, w2)
               | Inr xs \<Rightarrow> (Inr (x # xs), w2))))"

text \<open>\<open>[(i, f, len(chunk_files)) for i, f in enumerate(chunk_files)]\<close>.\<close>

definition chunk_args_of :: "string list \<Rightarrow> (int \<times> string \<times> int) list" where
  "chunk_args_of chunk_files =
     map (\<lambda>(i, f). (int i, f, int (length chunk_files))) (enumerate 0 chunk_files)"

section \<open>The aggregator (lines 98 to 121 of main)\<close>

definition success_count :: "chunk_result list \<Rightarrow> int" where
  "success_count results = (\<Sum>r \<leftarrow> filter (\<lambda>r. status r = ''SUCCESS'') results. 1)"

definition success_time :: "chunk_result list \<Rightarrow> rat" where
  "success_time results = (\<Sum>r \<leftarrow> filter (\<lambda>r. status r = ''SUCCESS'') results. time r)"

text \<open>\<open>a / b\<close> with a float \<open>a\<close> and an integer \<open>b\<close>, raising on a zero divisor.\<close>

definition truediv :: "rat \<Rightarrow> int \<Rightarrow> py_error + rat" where
  "truediv a b = (if b = 0 then Inl ZeroDivisionError else Inr (a / of_int b))"

text \<open>
  Lines 101 to 106: the lines printed, and the exception that ends the block if the
  division raises.
\<close>

definition report_summary :: "chunk_result list \<Rightarrow> line list \<times> py_error option" where
  "report_summary results =
     (let counts = [TotalChunks (int (length results)),
                    SuccessfulChunks (success_count results),
                    FailedChunks (int (length results) - success_count results)]
      in if success_count results > 0
         then (case truediv (success_time results) (success_count results) of
                 Inl e \<Rightarrow> (counts, Some e)
               | Inr average \<Rightarrow> (counts @ [AverageTime average], None))
         else (counts, None))"

text \<open>Lines 109 to 112; \<open>sorted\<close> is a stable sort on the key.\<close>

definition sorted_results :: "chunk_result list \<Rightarrow> chunk_result list" where
  "sorted_results results = sort_key chunk results"

definition report_details :: "chunk_result list \<Rightarrow> line list" where
  "report_details results =
     DetailedResults # map (\<lambda>r. ChunkLine (chunk r) (status r) (time r)) (sorted_results results)"

text \<open>The removals of lines 117 to 119, stopping at the first one that raises.\<close>

fun remove_files :: "string list \<Rightarrow> fs \<Rightarrow> py_error option \<times> fs" where
  "remove_files [] fsys = (None, fsys)"
| "remove_files (p # ps) fsys =
     (case os_remove p fsys of
        Inl e \<Rightarrow> (Some e, fsys)
      | Inr fsys' \<Rightarrow> remove_files ps fsys')"

section \<open>main\<close>

text \<open>
  How the process ends: \<open>sys.exit(c)\<close> or falling off the end of main (code 0), or
  an exception nobody catches, on which the interpreter exits with code 1.
\<close>

datatype outcome = Exit int | Uncaught py_error

fun exit_code :: "outcome \<Rightarrow> int" where
  "exit_code (Exit c) = c"
| "exit_code (Uncaught e) = 1"

text \<open>Lines 115 to 121.\<close>

definition cleanup :: "chunk_result list \<Rightarrow> string list \<Rightarrow> world \<Rightarrow> outcome \<times> world" where
  "cleanup results chunk_files w =
     (if list_all (\<lambda>r. status r = ''SUCCESS'') results then
        (let w1 = w\<lparr>stdout := stdout w @ [CleaningUp]\<rparr>
         in case remove_files (chunk_files @ [clean_path]) (files w1) of
              (Some e, fsys) \<Rightarrow> (Uncaught e, w1\<lparr>files := fsys\<rparr>)
            | (None, fsys) \<Rightarrow> (Exit 0, w1\<lparr>files := fsys\<rparr>))
      else (Exit 0, w\<lparr>stdout := stdout w @ [FilesKept]\<rparr>))"

text \<open>
  Lines 84 to 121: the pool, whose constructor rejects a process count below 1, the
  report and the cleanup.
\<close>

definition import_and_report :: "loader \<Rightarrow> int \<Rightarrow> string list \<Rightarrow> world \<Rightarrow> outcome \<times> world" where
  "import_and_report psql num_chunks chunk_files w =
     (let chunk_args = chunk_args_of chunk_files
      in if num_chunks < 1 then (Uncaught ValueError, w)
         else
           (let (mapped, w1) = pool_map psql chunk_args w
            in case mapped of
                 Inl e \<Rightarrow> (Uncaught e, w1)
               | Inr results \<Rightarrow>
                   (let (summary, raised) = report_summary results;
                        w2 = w1\<lparr>stdout := stdout w1 @ summary\<rparr>
                    in case raised of
                         Some e \<Rightarrow> (Uncaught e, w2)
                       | None \<Rightarrow>
                           cleanup results chunk_files
                             (w2\<lparr>stdout := stdout w2 @ report_details results\<rparr>))))"

text \<open>
  main.  Line 65 is modelled for a plain source path; what the command line of that
  line does for another path depends on how the shell splits it and is not
  represented.
\<close>

definition main :: "loader \<Rightarrow> string \<Rightarrow> int \<Rightarrow> world \<Rightarrow> outcome \<times> world" where
  "main psql args_file args_chunks w =
     (if files w args_file = None
      then (Exit 1, w\<lparr>stdout := stdout w @ [ErrorNotExist args_file]\<rparr>)
      else
        (let num_chunks = args_chunks;
             w1 = w\<lparr>files := os_system_sed sed_1d_last_d args_file clean_path (files w)\<rparr>
         in case wc_l clean_path (files w1) of
              Inl e \<Rightarrow> (Uncaught e, w1)
            | Inr total_lines \<Rightarrow>
                (case floordiv total_lines num_chunks of
                   Inl e \<Rightarrow> (Uncaught e, w1)
                 | Inr chunk_size \<Rightarrow>
                     (let (fsys, chunk_files) =
                            create_chunks num_chunks chunk_size total_lines
                              (py_range num_chunks) (files w1, [])
                      in import_and_report psql num_chunks chunk_files (w1\<lparr>files := fsys\<rparr>)))))"

section \<open>Intermediate states of main\<close>

text \<open>
  The lines of \<open>/tmp/taq_clean\<close> after line 65, and the file system after the loop
  of lines 76 to 82 in a run that gets there (the source exists and the chunk count is
  not 0, so that line 70 has not raised); both are what main computes, named so that
  statements about main can mention them.
\<close>

definition cleaned_lines :: "world \<Rightarrow> string \<Rightarrow> string list" where
  "cleaned_lines w args_file =
     (case ((files w)(clean_path \<mapsto> [])) args_file of None \<Rightarrow> [] | Some ls \<Rightarrow> sed_1d_last_d ls)"

definition split_files :: "world \<Rightarrow> string \<Rightarrow> int \<Rightarrow> fs" where
  "split_files w args_file n =
     (let cleaned = cleaned_lines w args_file;
          total_lines = int (length cleaned)
      in fst (create_chunks n (total_lines div n) total_lines (py_range n)
               ((files w)(clean_path \<mapsto> cleaned), [])))"

text \<open>
  The paths a run with \<open>num_chunks\<close> chunks writes: the target of line 65 and the
  chunk files of line 79.
\<close>

definition temp_paths :: "int \<Rightarrow> string list" where
  "temp_paths num_chunks = clean_path # map chunk_file_name (py_range num_chunks)"

text \<open>
  Whether a loader outcome lets import\_chunk return: the return code is 0, or the
  standard error decodes.
\<close>

definition returns_result :: "int \<times> string \<times> rat \<Rightarrow> bool" where
  "returns_result out = (case out of (returncode, stderr, elapsed_time) \<Rightarrow>
     returncode = 0 \<or> valid_utf8 (map of_char stderr))"

section \<open>Example inputs\<close>

text \<open>
  A source file of a header, two data lines and a footer; a loader under which every
  chunk succeeds, and one under which the chunk file of index 1 fails.
\<close>

definition example_world :: world where
  "example_world =
     \<lparr>files = [''in.txt'' \<mapsto> [''H'', ''a'', ''b'', ''F'']], psql_calls = [], stdout = []\<rparr>"

definition psql_ok :: loader where
  "psql_ok f = (0, [], 3)"

definition psql_fail_1 :: loader where
  "psql_fail_1 f = (if f = ''/tmp/taq_chunk_1.csv'' then (1, ''ERROR:  bad row'', 5) else (0, [], 3))"

text \<open>
  A loader whose failure on chunk file 1 writes the single byte 0xFF, which is not
  UTF-8.
\<close>

definition psql_fail_1_bytes :: loader where
  "psql_fail_1_bytes f = (if f = ''/tmp/taq_chunk_1.csv'' then (1, [CHR 0xFF], 5) else (0, [], 3))"

section \<open>Theorems\<close>

subsection \<open>The ranges of the splitter\<close>

lemma length_py_range: "length (py_range n) = nat n"
  by (simp add: py_range_def)

lemma nth_py_range: "i < nat n \<Longrightarrow> py_range n ! i = int i"
  by (simp add: py_range_def)

lemma set_py_range: "set (py_range n) = {0..<n}"
  by (auto simp add: py_range_def)

lemma length_chunk_ranges: "length (chunk_ranges n cs L) = nat n"
  by (simp add: chunk_ranges_def length_py_range)

lemma nth_chunk_ranges:
  "i < nat n \<Longrightarrow> chunk_ranges n cs L ! i = chunk_range n cs L (int i)"
  by (simp add: chunk_ranges_def length_py_range nth_py_range)

lemma range_lines_inner:
  "int i < n - 1 \<Longrightarrow> range_lines (chunk_range n cs L (int i)) = {int i * cs + 1..(int i + 1) * cs}"
  by (simp add: range_lines_def chunk_range_def)

lemma range_lines_last:
  "\<not> int i < n - 1 \<Longrightarrow> range_lines (chunk_range n cs L (int i)) = {int i * cs + 1..L}"
  by (simp add: range_lines_def chunk_range_def)

lemma inner_union:
  assumes "0 \<le> cs"
  shows "(\<Union>i<k. {int i * cs + 1..(int i + 1) * cs}) = {1..int k * cs}"
proof (induction k)
  case 0
  then show ?case by simp
next
  case (Suc k)
  have le: "int k * cs \<le> (int k + 1) * cs"
    using assms by (simp add: algebra_simps)
  have "(\<Union>i<Suc k. {int i * cs + 1..(int i + 1) * cs})
        = {1..int k * cs} \<union> {int k * cs + 1..(int k + 1) * cs}"
    using Suc.IH by (simp add: lessThan_Suc Un_commute)
  also have "\<dots> = {1..(int k + 1) * cs}"
  proof -
    have "0 \<le> int k * cs" using assms by simp
    with le show ?thesis by auto
  qed
  finally show ?case by (simp add: algebra_simps)
qed

lemma div_mult_le_int: "0 \<le> (L::int) \<Longrightarrow> 1 \<le> n \<Longrightarrow> (n - 1) * (L div n) \<le> L"
proof -
  assume L: "0 \<le> L" and n: "1 \<le> n"
  have "n * (L div n) = L - L mod n"
    by (simp add: minus_mod_eq_mult_div)
  moreover have "0 \<le> L mod n" using n by simp
  ultimately have "n * (L div n) \<le> L" by simp
  moreover have "0 \<le> L div n" using L n by (simp add: pos_imp_zdiv_nonneg_iff)
  ultimately show ?thesis by (simp add: algebra_simps)
qed

lemma chunk_ranges_union:
  assumes n: "1 \<le> n" and cs: "0 \<le> cs" and le: "(n - 1) * cs \<le> L"
  shows "(\<Union>r\<in>set (chunk_ranges n cs L). range_lines r) = {1..L}"
proof -
  define k where "k = nat (n - 1)"
  have nk: "nat n = Suc k" and ik: "int k = n - 1"
    using n by (simp_all add: k_def)
  have "set (chunk_ranges n cs L) = (\<lambda>i. chunk_range n cs L (int i)) ` {..<Suc k}"
  proof -
    have "set (chunk_ranges n cs L) = (\<lambda>i. chunk_ranges n cs L ! i) ` {..<Suc k}"
      by (simp add: set_conv_nth length_chunk_ranges nk image_def Bex_def conj_commute)
    also have "\<dots> = (\<lambda>i. chunk_range n cs L (int i)) ` {..<Suc k}"
      by (rule image_cong) (simp_all add: nth_chunk_ranges nk)
    finally show ?thesis .
  qed
  then have "(\<Union>r\<in>set (chunk_ranges n cs L). range_lines r)
      = (\<Union>i<Suc k. range_lines (chunk_range n cs L (int i)))"
    by simp
  also have "\<dots> = (\<Union>i<k. range_lines (chunk_range n cs L (int i)))
                   \<union> range_lines (chunk_range n cs L (int k))"
    by (simp add: lessThan_Suc Un_commute)
  also have "(\<Union>i<k. range_lines (chunk_range n cs L (int i)))
             = (\<Union>i<k. {int i * cs + 1..(int i + 1) * cs})"
  proof (rule SUP_cong)
    fix i assume "i \<in> {..<k}"
    then have "int i < n - 1" using ik by simp
    then show "range_lines (chunk_range n cs L (int i)) = {int i * cs + 1..(int i + 1) * cs}"
      by (rule range_lines_inner)
  qed simp
  also have "\<dots> = {1..int k * cs}"
    by (rule inner_union [OF cs])
  also have "range_lines (chunk_range n cs L (int k)) = {int k * cs + 1..L}"
    by (rule range_lines_last) (simp add: ik)
  also have "{1..int k * cs} \<union> {int k * cs + 1..L} = {1..L}"
  proof -
    have "0 \<le> int k * cs" using cs by simp
    moreover have "int k * cs \<le> L" using le by (simp add: ik)
    ultimately show ?thesis by auto
  qed
  finally show ?thesis .
qed

lemma chunk_ranges_disjoint:
  assumes cs: "0 \<le> cs" and ij: "i < j" and j: "j < nat n"
  shows "range_lines (chunk_ranges n cs L ! i) \<inter> range_lines (chunk_ranges n cs L ! j) = {}"
proof -
  have i: "int i < n - 1" using ij j by linarith
  have ri: "range_lines (chunk_ranges n cs L ! i) = {int i * cs + 1..(int i + 1) * cs}"
    using ij j i by (simp add: nth_chunk_ranges range_lines_inner)
  have rj: "range_lines (chunk_ranges n cs L ! j) \<subseteq> {int j * cs + 1..}"
    using j by (auto simp add: nth_chunk_ranges range_lines_def chunk_range_def)
  have "(int i + 1) * cs \<le> int j * cs"
    using ij cs by (intro mult_right_mono) simp_all
  with ri rj show ?thesis by fastforce
qed

lemma split_ranges_pos:
  "1 \<le> n \<Longrightarrow> split_ranges n L = Inr (chunk_ranges n (L div n) L)"
  by (simp add: split_ranges_def floordiv_def)

text \<open>
  C1: for every chunk count of at least 1 and every line count \<open>L\<close> the splitter
  computes its ranges without raising, one for each chunk, and read as inclusive
  1-indexed intervals they partition the lines 1 to \<open>L\<close>: their union is exactly
  that interval and two different chunks share no line.
\<close>

theorem C1_chunk_ranges_partition:
  assumes "1 \<le> num_chunks"
  shows "\<exists>rs. split_ranges num_chunks (int L) = Inr rs
           \<and> length rs = nat num_chunks
           \<and> (\<Union>r\<in>set rs. range_lines r) = {1..int L}
           \<and> (\<forall>i j. i < j \<and> j < length rs
                  \<longrightarrow> range_lines (rs ! i) \<inter> range_lines (rs ! j) = {})"
proof -
  let ?cs = "int L div num_chunks"
  have cs: "0 \<le> ?cs" using assms by (simp add: pos_imp_zdiv_nonneg_iff)
  have le: "(num_chunks - 1) * ?cs \<le> int L"
    using assms by (intro div_mult_le_int) simp_all
  show ?thesis
    using assms chunk_ranges_union [OF assms cs le] chunk_ranges_disjoint [OF cs]
    by (simp add: split_ranges_pos length_chunk_ranges)
qed

text \<open>The instance of C1 for 3 chunks and 10 lines.\<close>

theorem C1_chunk_ranges_partition_witness:
  "(1::int) \<le> 3 \<and> (\<exists>rs. split_ranges 3 (int 10) = Inr rs
           \<and> length rs = nat 3
           \<and> (\<Union>r\<in>set rs. range_lines r) = {1..int 10}
           \<and> (\<forall>i j. i < j \<and> j < length rs
                  \<longrightarrow> range_lines (rs ! i) \<inter> range_lines (rs ! j) = {}))"
  using C1_chunk_ranges_partition [of 3 10] by simp

text \<open>
  C4: for a chunk count of at least 1 that does not divide the line count \<open>L\<close>,
  every chunk but the last has a range of exactly \<open>L div num_chunks\<close> lines, and the
  last one has that many plus the remainder \<open>L mod num_chunks\<close>, which is strictly
  more.
\<close>

theorem C4_only_last_chunk_larger:
  assumes "1 \<le> num_chunks" and "\<not> num_chunks dvd int L"
  shows "\<exists>rs. split_ranges num_chunks (int L) = Inr rs
           \<and> length rs = nat num_chunks
           \<and> (\<forall>i < length rs.
                  if i = length rs - 1
                  then range_size (rs ! i) = int L div num_chunks + int L mod num_chunks
                       \<and> int L div num_chunks < range_size (rs ! i)
                  else range_size (rs ! i) = int L div num_chunks)"
proof -
  let ?cs = "int L div num_chunks"
  have m: "0 < int L mod num_chunks"
    using assms by (simp add: dvd_eq_mod_eq_0 order_less_le)
  have last: "range_size (chunk_range num_chunks ?cs (int L) (num_chunks - 1)) = ?cs + int L mod num_chunks"
  proof -
    have "int L = num_chunks * ?cs + int L mod num_chunks" by simp
    then have "int L - (num_chunks - 1) * ?cs = ?cs + int L mod num_chunks"
      by (simp add: algebra_simps)
    then show ?thesis by (simp add: range_size_def chunk_range_def algebra_simps)
  qed
  have inner: "range_size (chunk_range num_chunks ?cs (int L) (int i)) = ?cs"
    if "int i < num_chunks - 1" for i
    using that by (simp add: range_size_def chunk_range_def algebra_simps)
  have "(if i = nat num_chunks - 1
         then range_size (chunk_ranges num_chunks ?cs (int L) ! i) = ?cs + int L mod num_chunks
              \<and> ?cs < range_size (chunk_ranges num_chunks ?cs (int L) ! i)
         else range_size (chunk_ranges num_chunks ?cs (int L) ! i) = ?cs)"
    if "i < nat num_chunks" for i
  proof (cases "i = nat num_chunks - 1")
    case True
    then have "int i = num_chunks - 1" using assms(1) by simp
    with True that last m show ?thesis by (simp add: nth_chunk_ranges)
  next
    case False
    then have "int i < num_chunks - 1" using that by linarith
    with False that inner show ?thesis by (simp add: nth_chunk_ranges)
  qed
  then show ?thesis
    using assms(1) m by (simp add: split_ranges_pos length_chunk_ranges)
qed

text \<open>The instance of C4 for 8 chunks and 100 lines.\<close>

theorem C4_only_last_chunk_larger_witness:
  "(1::int) \<le> 8 \<and> \<not> (8::int) dvd int 100 \<and>
   (\<exists>rs. split_ranges 8 (int 100) = Inr rs
           \<and> length rs = nat 8
           \<and> (\<forall>i < length rs.
                  if i = length rs - 1
                  then range_size (rs ! i) = int 100 div 8 + int 100 mod 8
                       \<and> int 100 div 8 < range_size (rs ! i)
                  else range_size (rs ! i) = int 100 div 8))"
  using C4_only_last_chunk_larger [of 8 100] by simp


lemma py_range_8: "py_range 8 = [0, 1, 2, 3, 4, 5, 6, 7]"
  by (simp add: py_range_def upto.simps)

text \<open>
  C3 (as the code computes it): for 100 cleaned lines and 8 chunks the chunk size is
  12 and the eight ranges are [1,12], [13,24], [25,36], [37,48], [49,60], [61,72],
  [73,84] and [85,100], of sizes 12 seven times and then 16.
\<close>

theorem C3_ranges_100_8:
  "split_ranges 8 100 =
     Inr [(1, 12), (13, 24), (25, 36), (37, 48), (49, 60), (61, 72), (73, 84), (85, 100)]
   \<and> map range_size (chunk_ranges 8 12 100) = [12, 12, 12, 12, 12, 12, 12, 16]"
  by (simp add: split_ranges_def floordiv_def chunk_ranges_def chunk_range_def py_range_8
      range_size_def)

text \<open>
  C3 as the specification words it fails: it lists [85,96] and [97,100] among the
  ranges, nine ranges for eight chunks, and the splitter computes neither of the two.
\<close>

theorem C3_spec_ranges_counterexample:
  "split_ranges 8 100 \<noteq>
     Inr [(1, 12), (13, 24), (25, 36), (37, 48), (49, 60), (61, 72), (73, 84), (85, 96), (97, 100)]
   \<and> (85, 96) \<notin> set (chunk_ranges 8 12 100)
   \<and> (97, 100) \<notin> set (chunk_ranges 8 12 100)"
  by (simp add: split_ranges_def floordiv_def chunk_ranges_def chunk_range_def py_range_8)


subsection \<open>File names, the file system and the pool\<close>

lemma digit_inj: "a < 10 \<Longrightarrow> b < 10 \<Longrightarrow> digit a = digit b \<Longrightarrow> a = b"
proof -
  assume "a < 10" "b < 10" and eq: "digit a = digit b"
  then have "a \<in> {0, 1, 2, 3, 4, 5, 6, 7, 8, 9}" "b \<in> {0, 1, 2, 3, 4, 5, 6, 7, 8, 9}"
    by auto
  with eq show ?thesis
    by (auto simp add: digit_def)
qed

lemma str_nat_not_Nil: "str_nat n \<noteq> []"
  by (subst str_nat.simps) simp

lemma str_nat_inj: "str_nat m = str_nat n \<Longrightarrow> m = n"
proof (induction m arbitrary: n rule: str_nat.induct)
  case (1 m)
  show ?case
  proof (cases "m < 10")
    case True
    then have m: "str_nat m = [digit m]" by (subst str_nat.simps) simp
    show ?thesis
    proof (cases "n < 10")
      case nlt: True
      then have "str_nat n = [digit n]" by (subst str_nat.simps) simp
      with m "1.prems" have "digit m = digit n" by simp
      with True nlt show ?thesis by (rule digit_inj)
    next
      case False
      then have "str_nat n = str_nat (n div 10) @ [digit (n mod 10)]"
        by (subst str_nat.simps) simp
      with m "1.prems" have "str_nat (n div 10) = []" by simp
      then show ?thesis by (simp add: str_nat_not_Nil)
    qed
  next
    case False
    then have m: "str_nat m = str_nat (m div 10) @ [digit (m mod 10)]"
      by (subst str_nat.simps) simp
    show ?thesis
    proof (cases "n < 10")
      case True
      then have "str_nat n = [digit n]" by (subst str_nat.simps) simp
      with m "1.prems" have "str_nat (m div 10) = []" by simp
      then show ?thesis by (simp add: str_nat_not_Nil)
    next
      case nge: False
      then have "str_nat n = str_nat (n div 10) @ [digit (n mod 10)]"
        by (subst str_nat.simps) simp
      with m "1.prems" have eq: "str_nat (m div 10) = str_nat (n div 10)"
        and d: "digit (m mod 10) = digit (n mod 10)" by simp_all
      from "1.IH" [OF False eq] have q: "m div 10 = n div 10" .
      from d have r: "m mod 10 = n mod 10" by (intro digit_inj) simp_all
      from q r show ?thesis by (metis div_mult_mod_eq)
    qed
  qed
qed

lemma chunk_file_name_inj:
  "0 \<le> i \<Longrightarrow> 0 \<le> j \<Longrightarrow> chunk_file_name i = chunk_file_name j \<Longrightarrow> i = j"
proof -
  assume i: "0 \<le> i" and j: "0 \<le> j" and eq: "chunk_file_name i = chunk_file_name j"
  from eq have "str i = str j" by (simp add: chunk_file_name_def)
  with i j have "str_nat (nat i) = str_nat (nat j)" by (simp add: str_def)
  then have "nat i = nat j" by (rule str_nat_inj)
  with i j show ?thesis by simp
qed

lemma chunk_file_name_not_clean: "chunk_file_name i \<noteq> clean_path"
  by (simp add: chunk_file_name_def clean_path_def)

lemma distinct_chunk_names: "distinct (map chunk_file_name (py_range n))"
  by (auto simp add: distinct_map py_range_def inj_on_def dest: chunk_file_name_inj)

lemma distinct_temp: "distinct (map chunk_file_name (py_range n) @ [clean_path])"
  by (auto simp add: distinct_chunk_names chunk_file_name_not_clean [symmetric])

lemma os_system_sed_apply:
  "os_system_sed script inp out fsys p =
     (if p = out then Some (case (fsys(out \<mapsto> [])) inp of None \<Rightarrow> [] | Some ls \<Rightarrow> script ls)
      else fsys p)"
  by (simp add: os_system_sed_def Let_def)

lemma os_system_sed_dom: "dom (os_system_sed script inp out fsys) = insert out (dom fsys)"
  by (auto simp add: os_system_sed_apply dom_def)

lemma create_chunks_names:
  "snd (create_chunks n cs L idx (fsys, chunk_files)) = chunk_files @ map chunk_file_name idx"
  by (induction idx arbitrary: fsys chunk_files) (simp_all add: Let_def split: prod.splits)

lemma create_chunks_dom:
  "dom (fst (create_chunks n cs L idx (fsys, chunk_files))) = dom fsys \<union> chunk_file_name ` set idx"
  by (induction idx arbitrary: fsys chunk_files)
     (simp_all add: Let_def os_system_sed_dom split: prod.splits)

lemma create_chunks_other:
  "p \<notin> chunk_file_name ` set idx \<Longrightarrow>
     fst (create_chunks n cs L idx (fsys, chunk_files)) p = fsys p"
  by (induction idx arbitrary: fsys chunk_files)
     (simp_all add: Let_def os_system_sed_apply split: prod.splits)


lemma import_chunk_world:
  "snd (import_chunk psql (i, f, t) w) = w\<lparr>psql_calls := psql_calls w @ [f]\<rparr>"
  by (simp add: import_chunk_def Let_def case_prod_beta split: sum.splits)

lemma import_chunk_result:
  "fst (import_chunk psql (i, f, t) w) =
     (if returns_result (psql f)
      then Inr \<lparr>chunk = i + 1, file = f,
                status = (if fst (psql f) = 0 then ''SUCCESS'' else ''FAILED''),
                time = snd (snd (psql f)), result = fst (psql f)\<rparr>
      else Inl UnicodeDecodeError)"
  by (simp add: import_chunk_def returns_result_def decode_def Let_def case_prod_beta)

lemma import_chunk_result_indep:
  "fst (import_chunk psql a w) = fst (import_chunk psql a w')"
  by (cases a) (simp add: import_chunk_result)

lemma pool_map_results_indep:
  "fst (pool_map psql as w) = fst (pool_map psql as w')"
proof (induction as arbitrary: w w')
  case Nil
  show ?case by simp
next
  case (Cons a as)
  have "fst (pool_map psql as (snd (import_chunk psql a w)))
        = fst (pool_map psql as (snd (import_chunk psql a w')))"
    by (rule Cons.IH)
  then show ?case
    using import_chunk_result_indep [of psql a w w']
    by (simp add: Let_def case_prod_beta split: sum.splits)
qed

lemma pool_map_length:
  "fst (pool_map psql as w) = Inr rs \<Longrightarrow> length rs = length as"
proof (induction as arbitrary: w rs)
  case Nil
  then show ?case by simp
next
  case (Cons a as)
  then show ?case
    by (auto simp add: Let_def case_prod_beta split: sum.splits)
qed

lemma pool_map_raises:
  "fst (pool_map psql as w) = Inl e \<Longrightarrow>
     e = UnicodeDecodeError \<and> (\<exists>a \<in> set as. \<not> returns_result (psql (fst (snd a))))"
proof (induction as arbitrary: w)
  case Nil
  then show ?case by simp
next
  case (Cons a as)
  obtain i f t where a: "a = (i, f, t)" by (cases a)
  show ?case
  proof (cases "returns_result (psql f)")
    case True
    with Cons.prems a
    have "fst (pool_map psql as (snd (import_chunk psql a w))) = Inl e"
      by (simp add: Let_def case_prod_beta import_chunk_result split: sum.splits)
    from Cons.IH [OF this] show ?thesis by simp
  next
    case False
    with Cons.prems a show ?thesis
      by (auto simp add: Let_def case_prod_beta import_chunk_result split: sum.splits)
  qed
qed

lemma pool_map_returns:
  "\<forall>a \<in> set as. returns_result (psql (fst (snd a))) \<Longrightarrow> \<exists>rs. fst (pool_map psql as w) = Inr rs"
  by (cases "fst (pool_map psql as w)") (auto dest: pool_map_raises)

lemma pool_map_world:
  "snd (pool_map psql as w) = w\<lparr>psql_calls := psql_calls w @ map (\<lambda>a. fst (snd a)) as\<rparr>"
proof (induction as arbitrary: w)
  case Nil
  show ?case by simp
next
  case (Cons a as)
  obtain i f t where a: "a = (i, f, t)" by (cases a)
  show ?case
    using Cons.IH [of "snd (import_chunk psql a w)"]
    by (simp add: a import_chunk_world Let_def case_prod_beta split: sum.splits)
qed

lemma chunk_args_files: "map (\<lambda>a. fst (snd a)) (chunk_args_of chunk_files) = chunk_files"
  by (simp add: chunk_args_of_def enumerate_eq_zip case_prod_beta comp_def)

lemma remove_files_ok:
  "distinct ps \<Longrightarrow> set ps \<subseteq> dom fsys \<Longrightarrow>
     remove_files ps fsys = (None, \<lambda>p. if p \<in> set ps then None else fsys p)"
proof (induction ps arbitrary: fsys)
  case Nil
  show ?case by simp
next
  case (Cons q ps)
  from Cons.prems obtain v where v: "fsys q = Some v" by auto
  have "remove_files ps (fsys(q := None))
        = (None, \<lambda>p. if p \<in> set ps then None else (fsys(q := None)) p)"
    using Cons.prems by (intro Cons.IH) auto
  then show ?case
    by (auto simp add: os_remove_def v)
qed

subsection \<open>main, from the split to the cleanup\<close>

lemma cleanup_all_success:
  assumes ok: "list_all (\<lambda>r. status r = ''SUCCESS'') results"
    and d: "distinct (chunk_files @ [clean_path])"
    and ex: "set (chunk_files @ [clean_path]) \<subseteq> dom (files w)"
  shows "cleanup results chunk_files w =
     (Exit 0, w\<lparr>stdout := stdout w @ [CleaningUp],
                files := (\<lambda>p. if p \<in> set (chunk_files @ [clean_path]) then None else files w p)\<rparr>)"
proof -
  have "remove_files (chunk_files @ [clean_path]) (files w)
        = (None, \<lambda>p. if p \<in> set (chunk_files @ [clean_path]) then None else files w p)"
    using d ex by (rule remove_files_ok)
  with ok show ?thesis by (simp add: cleanup_def Let_def)
qed

lemma cleanup_some_failed:
  assumes "\<not> list_all (\<lambda>r. status r = ''SUCCESS'') results"
  shows "cleanup results chunk_files w = (Exit 0, w\<lparr>stdout := stdout w @ [FilesKept]\<rparr>)"
  using assms by (simp add: cleanup_def)

lemma success_count_length:
  "success_count results = int (length (filter (\<lambda>r. status r = ''SUCCESS'') results))"
  by (simp add: success_count_def sum_list_triv)

lemma report_summary_no_raise: "snd (report_summary results) = None"
  by (simp add: report_summary_def truediv_def Let_def)

lemma import_and_report_pos:
  assumes n: "1 \<le> n"
  shows "import_and_report psql n chunk_files w =
     (case fst (pool_map psql (chunk_args_of chunk_files) w) of
        Inl e \<Rightarrow> (Uncaught e, w\<lparr>psql_calls := psql_calls w @ chunk_files\<rparr>)
      | Inr results \<Rightarrow>
          cleanup results chunk_files
            (w\<lparr>psql_calls := psql_calls w @ chunk_files,
               stdout := stdout w @ fst (report_summary results) @ report_details results\<rparr>))"
  using n
  by (simp add: import_and_report_def Let_def case_prod_beta pool_map_world chunk_args_files
      report_summary_no_raise split: sum.splits)

lemma main_pos:
  assumes ex: "files w args_file \<noteq> None" and n: "1 \<le> n"
  shows "main psql args_file n w =
     import_and_report psql n (map chunk_file_name (py_range n))
       (w\<lparr>files := split_files w args_file n\<rparr>)"
proof -
  have sed: "os_system_sed sed_1d_last_d args_file clean_path (files w)
             = (files w)(clean_path \<mapsto> cleaned_lines w args_file)"
    by (simp add: os_system_sed_def cleaned_lines_def Let_def)
  have names: "snd (create_chunks n cs L (py_range n) (fsys, [])) = map chunk_file_name (py_range n)"
    for cs L fsys
    by (simp add: create_chunks_names)
  show ?thesis
    using ex n
    by (auto simp add: main_def sed wc_l_def floordiv_def Let_def case_prod_beta names split_files_def)
qed

lemma split_files_temp:
  "set (map chunk_file_name (py_range n) @ [clean_path]) \<subseteq> dom (split_files w args_file n)"
  by (auto simp add: split_files_def Let_def create_chunks_dom)

lemma main_missing_file:
  "files w args_file = None \<Longrightarrow>
     main psql args_file n w = (Exit 1, w\<lparr>stdout := stdout w @ [ErrorNotExist args_file]\<rparr>)"
  by (simp add: main_def)

lemma main_zero_chunks:
  "files w args_file \<noteq> None \<Longrightarrow>
     main psql args_file 0 w =
       (Uncaught ZeroDivisionError,
        w\<lparr>files := (files w)(clean_path \<mapsto> cleaned_lines w args_file)\<rparr>)"
  by (auto simp add: main_def os_system_sed_def cleaned_lines_def wc_l_def floordiv_def Let_def)


lemma main_pos_cases:
  assumes ex: "files w args_file \<noteq> None" and n: "1 \<le> n"
  shows "main psql args_file n w =
     (case fst (pool_map psql (chunk_args_of (map chunk_file_name (py_range n))) w) of
        Inl e \<Rightarrow>
          (Uncaught e, w\<lparr>files := split_files w args_file n,
                         psql_calls := psql_calls w @ map chunk_file_name (py_range n)\<rparr>)
      | Inr results \<Rightarrow>
          cleanup results (map chunk_file_name (py_range n))
            (w\<lparr>files := split_files w args_file n,
               psql_calls := psql_calls w @ map chunk_file_name (py_range n),
               stdout := stdout w @ fst (report_summary results) @ report_details results\<rparr>))"
proof -
  let ?cf = "map chunk_file_name (py_range n)"
  let ?w2 = "w\<lparr>files := split_files w args_file n\<rparr>"
  have res: "fst (pool_map psql (chunk_args_of ?cf) ?w2) = fst (pool_map psql (chunk_args_of ?cf) w)"
    by (rule pool_map_results_indep)
  show ?thesis
    using main_pos [OF ex n, of psql] import_and_report_pos [OF n, of psql ?cf ?w2]
    by (simp add: res split: sum.splits)
qed

text \<open>
  C2: take a run on an existing source with at least one chunk.  When the pool hands
  back its results, there is one for each chunk, main ends with exit code 0, and in
  the final file system the cleaned file and every chunk file are all gone exactly
  when every result has status SUCCESS; when some result is not SUCCESS, the cleaned
  file and every chunk file are all still there.  When instead a worker raised, which
  only a failed chunk can do, main ends with that exception before the cleanup and
  the cleaned file and every chunk file are all still there.
\<close>

theorem C2_cleanup_iff_all_success:
  assumes ex: "files w args_file \<noteq> None" and n: "1 \<le> num_chunks"
  shows "\<exists>out w'. main psql args_file num_chunks w = (out, w') \<and>
     (let chunk_files = map chunk_file_name (py_range num_chunks)
      in case fst (pool_map psql (chunk_args_of chunk_files) w) of
           Inr results \<Rightarrow>
             out = Exit 0
             \<and> length results = nat num_chunks
             \<and> ((\<forall>f \<in> set (clean_path # chunk_files). files w' f = None)
                  \<longleftrightarrow> (\<forall>r \<in> set results. status r = ''SUCCESS''))
             \<and> ((\<exists>r \<in> set results. status r \<noteq> ''SUCCESS'')
                  \<longrightarrow> (\<forall>f \<in> set (clean_path # chunk_files). files w' f \<noteq> None))
         | Inl e \<Rightarrow>
             out = Uncaught e
             \<and> (\<forall>f \<in> set (clean_path # chunk_files). files w' f \<noteq> None))"
proof -
  define chunk_files where "chunk_files = map chunk_file_name (py_range num_chunks)"
  define fs2 where "fs2 = split_files w args_file num_chunks"
  have m: "main psql args_file num_chunks w =
     (case fst (pool_map psql (chunk_args_of chunk_files) w) of
        Inl e \<Rightarrow> (Uncaught e, w\<lparr>files := fs2, psql_calls := psql_calls w @ chunk_files\<rparr>)
      | Inr results \<Rightarrow>
          cleanup results chunk_files
            (w\<lparr>files := fs2, psql_calls := psql_calls w @ chunk_files,
               stdout := stdout w @ fst (report_summary results) @ report_details results\<rparr>))"
    unfolding chunk_files_def fs2_def by (rule main_pos_cases [OF ex n])
  have d: "distinct (chunk_files @ [clean_path])"
    unfolding chunk_files_def by (rule distinct_temp)
  have dom: "set (chunk_files @ [clean_path]) \<subseteq> dom fs2"
    unfolding chunk_files_def fs2_def by (rule split_files_temp)
  then have present: "\<forall>f \<in> set (clean_path # chunk_files). fs2 f \<noteq> None"
    by auto
  show ?thesis
  proof (cases "fst (pool_map psql (chunk_args_of chunk_files) w)")
    case (Inl e)
    with m present show ?thesis
      by (simp add: chunk_files_def [symmetric])
  next
    case (Inr results)
    define w3 where "w3 = w\<lparr>files := fs2, psql_calls := psql_calls w @ chunk_files,
               stdout := stdout w @ fst (report_summary results) @ report_details results\<rparr>"
    have m': "main psql args_file num_chunks w = cleanup results chunk_files w3"
      using m Inr by (simp add: w3_def)
    have f3: "files w3 = fs2" by (simp add: w3_def)
    have len: "length results = nat num_chunks"
      using pool_map_length [OF Inr]
      by (simp add: chunk_args_of_def chunk_files_def length_py_range)
    show ?thesis
    proof (cases "list_all (\<lambda>r. status r = ''SUCCESS'') results")
      case True
      have "cleanup results chunk_files w3 =
        (Exit 0, w3\<lparr>stdout := stdout w3 @ [CleaningUp],
                   files := (\<lambda>p. if p \<in> set (chunk_files @ [clean_path]) then None else files w3 p)\<rparr>)"
        using True d dom by (intro cleanup_all_success) (simp_all add: f3)
      with m' True len Inr show ?thesis
        by (simp add: chunk_files_def [symmetric] list_all_iff)
    next
      case False
      have "cleanup results chunk_files w3 = (Exit 0, w3\<lparr>stdout := stdout w3 @ [FilesKept]\<rparr>)"
        using False by (rule cleanup_some_failed)
      with m' False len Inr present show ?thesis
        by (simp add: chunk_files_def [symmetric] list_all_iff f3)
          (auto simp add: clean_path_def)
    qed
  qed
qed


lemma py_range_2: "py_range 2 = [0, 1]"
  by (simp add: py_range_def upto.simps)

lemma py_range_3: "py_range 3 = [0, 1, 2]"
  by (simp add: py_range_def upto.simps)

lemma str_0_1_2: "str 0 = ''0''" "str 1 = ''1''" "str 2 = ''2''"
  by (simp_all add: str_def str_nat.simps digit_def)

lemma psql_fail_1_returns: "returns_result (psql_fail_1 f)"
  by (simp add: returns_result_def psql_fail_1_def continuation_def)

lemma psql_fail_1_bytes_raises: "\<not> returns_result (psql_fail_1_bytes ''/tmp/taq_chunk_1.csv'')"
  by (simp add: returns_result_def psql_fail_1_bytes_def)

text \<open>
  The instance of C2 for the example file, two chunks and a loader that fails on chunk
  file 1: the pool returns two results, the second of them FAILED.
\<close>

theorem C2_cleanup_iff_all_success_witness:
  "files example_world ''in.txt'' \<noteq> None \<and> (1::int) \<le> 2 \<and>
   (\<exists>out w'. main psql_fail_1 ''in.txt'' 2 example_world = (out, w') \<and>
     (let chunk_files = map chunk_file_name (py_range 2)
      in case fst (pool_map psql_fail_1 (chunk_args_of chunk_files) example_world) of
           Inr results \<Rightarrow>
             out = Exit 0
             \<and> length results = nat 2
             \<and> ((\<forall>f \<in> set (clean_path # chunk_files). files w' f = None)
                  \<longleftrightarrow> (\<forall>r \<in> set results. status r = ''SUCCESS''))
             \<and> ((\<exists>r \<in> set results. status r \<noteq> ''SUCCESS'')
                  \<longrightarrow> (\<forall>f \<in> set (clean_path # chunk_files). files w' f \<noteq> None))
         | Inl e \<Rightarrow>
             out = Uncaught e
             \<and> (\<forall>f \<in> set (clean_path # chunk_files). files w' f \<noteq> None)))
   \<and> (\<exists>r1 r2. fst (pool_map psql_fail_1 (chunk_args_of (map chunk_file_name (py_range 2))) example_world)
                  = Inr [r1, r2] \<and> status r1 = ''SUCCESS'' \<and> status r2 = ''FAILED'')"
proof -
  have ex: "files example_world ''in.txt'' \<noteq> None"
    by (simp add: example_world_def)
  have n: "(1::int) \<le> 2" by simp
  have r: "\<exists>r1 r2. fst (pool_map psql_fail_1 (chunk_args_of (map chunk_file_name (py_range 2))) example_world)
                  = Inr [r1, r2] \<and> status r1 = ''SUCCESS'' \<and> status r2 = ''FAILED''"
    by (simp add: py_range_2 chunk_file_name_def str_0_1_2 chunk_args_of_def enumerate_eq_zip upt_rec
        Let_def case_prod_beta import_chunk_result psql_fail_1_returns)
      (simp add: psql_fail_1_def)
  from ex n r C2_cleanup_iff_all_success [of example_world "''in.txt''" 2 psql_fail_1]
  show ?thesis by blast
qed

text \<open>
  C10, evaluated where it fails: a cleaned file of 2 lines split into 3 chunks.  The
  ranges are [1,0], [1,0] and [1,2] and the loader is called once for each of the three
  chunk files, but the chunk files of the two ranges [1,0] are not empty: \<open>sed -n '1,0p'\<close>
  prints line 1, so each of them holds the first cleaned line, which the last chunk
  holds as well.
\<close>

theorem C10_short_file_chunk_contents:
  "split_ranges 3 2 = Inr [(1, 0), (1, 0), (1, 2)] \<and>
   (\<exists>w'. main psql_fail_1 ''in.txt'' 3 example_world = (Exit 0, w')
      \<and> files w' ''/tmp/taq_clean'' = Some [''a'', ''b'']
      \<and> files w' ''/tmp/taq_chunk_0.csv'' = Some [''a'']
      \<and> files w' ''/tmp/taq_chunk_1.csv'' = Some [''a'']
      \<and> files w' ''/tmp/taq_chunk_2.csv'' = Some [''a'', ''b'']
      \<and> psql_calls w' = [''/tmp/taq_chunk_0.csv'', ''/tmp/taq_chunk_1.csv'', ''/tmp/taq_chunk_2.csv''])"
proof -
  have r: "split_ranges 3 2 = Inr [(1, 0), (1, 0), (1, 2)]"
    by (simp add: split_ranges_def floordiv_def chunk_ranges_def chunk_range_def py_range_3)
  have ex: "files example_world ''in.txt'' \<noteq> None"
    by (simp add: example_world_def)
  have cl: "cleaned_lines example_world ''in.txt'' = [''a'', ''b'']"
    by (simp add: cleaned_lines_def example_world_def clean_path_def sed_1d_last_d_def)
  have sf: "split_files example_world ''in.txt'' 3 =
      [''in.txt'' \<mapsto> [''H'', ''a'', ''b'', ''F''], ''/tmp/taq_clean'' \<mapsto> [''a'', ''b''],
       ''/tmp/taq_chunk_0.csv'' \<mapsto> [''a''], ''/tmp/taq_chunk_1.csv'' \<mapsto> [''a''],
       ''/tmp/taq_chunk_2.csv'' \<mapsto> [''a'', ''b'']]"
    unfolding split_files_def cl Let_def
    by (simp add: py_range_3 chunk_range_def chunk_file_name_def str_0_1_2
        os_system_sed_def sed_n_p_def clean_path_def example_world_def Let_def)
  have names: "map chunk_file_name (py_range 3)
      = [''/tmp/taq_chunk_0.csv'', ''/tmp/taq_chunk_1.csv'', ''/tmp/taq_chunk_2.csv'']"
    by (simp add: py_range_3 chunk_file_name_def str_0_1_2)
  obtain results where res: "fst (pool_map psql_fail_1 (chunk_args_of (map chunk_file_name (py_range 3)))
      example_world) = Inr results"
    using pool_map_returns [of "chunk_args_of (map chunk_file_name (py_range 3))" psql_fail_1 example_world]
    by (auto simp add: psql_fail_1_returns)
  then have fail: "\<not> list_all (\<lambda>r. status r = ''SUCCESS'') results"
    by (simp add: names chunk_args_of_def enumerate_eq_zip upt_rec Let_def case_prod_beta
        import_chunk_result psql_fail_1_returns)
      (auto simp add: psql_fail_1_def)
  have "main psql_fail_1 ''in.txt'' 3 example_world =
      cleanup results (map chunk_file_name (py_range 3))
        (example_world\<lparr>files := split_files example_world ''in.txt'' 3,
           psql_calls := psql_calls example_world @ map chunk_file_name (py_range 3),
           stdout := stdout example_world @ fst (report_summary results) @ report_details results\<rparr>)"
    using main_pos_cases [OF ex, of 3 psql_fail_1] res by simp
  then show ?thesis
    using r
    by (simp add: cleanup_some_failed [OF fail] sf)
      (simp add: names example_world_def)
qed

subsection \<open>Exit codes, the report and the temporary names\<close>

lemma main_exit_0:
  assumes ex: "files w args_file \<noteq> None" and n: "1 \<le> n"
    and dec: "\<forall>f \<in> set (map chunk_file_name (py_range n)). returns_result (psql f)"
  shows "fst (main psql args_file n w) = Exit 0"
proof -
  let ?cf = "map chunk_file_name (py_range n)"
  have "\<forall>a \<in> set (chunk_args_of ?cf). returns_result (psql (fst (snd a)))"
    using dec chunk_args_files [of ?cf] by (metis (no_types, lifting) image_eqI list.set_map)
  then obtain results where res: "fst (pool_map psql (chunk_args_of ?cf) w) = Inr results"
    using pool_map_returns by blast
  define w3 where "w3 = w\<lparr>files := split_files w args_file n,
               psql_calls := psql_calls w @ ?cf,
               stdout := stdout w @ fst (report_summary results) @ report_details results\<rparr>"
  have m: "main psql args_file n w = cleanup results ?cf w3"
    using main_pos_cases [OF ex n, of psql] res by (simp add: w3_def)
  show ?thesis
  proof (cases "list_all (\<lambda>r. status r = ''SUCCESS'') results")
    case True
    have "distinct (?cf @ [clean_path])" by (rule distinct_temp)
    moreover have "set (?cf @ [clean_path]) \<subseteq> dom (files w3)"
      using split_files_temp [of n w args_file] by (simp add: w3_def)
    ultimately show ?thesis
      using True m by (simp add: cleanup_all_success)
  next
    case False
    then show ?thesis using m by (simp add: cleanup_some_failed)
  qed
qed

text \<open>
  A failed chunk whose error output is not UTF-8: line 27 raises in the worker, the
  pool raises it again in main, and the run ends there.
\<close>

lemma main_undecodable_stderr:
  "fst (main psql_fail_1_bytes ''in.txt'' 2 example_world) = Uncaught UnicodeDecodeError"
proof -
  have ex: "files example_world ''in.txt'' \<noteq> None"
    by (simp add: example_world_def)
  have "fst (pool_map psql_fail_1_bytes (chunk_args_of (map chunk_file_name (py_range 2))) example_world)
        = Inl UnicodeDecodeError"
    by (simp add: py_range_2 chunk_file_name_def str_0_1_2 chunk_args_of_def enumerate_eq_zip upt_rec
        Let_def case_prod_beta import_chunk_result psql_fail_1_bytes_raises)
  with main_pos_cases [OF ex, of 2 psql_fail_1_bytes] show ?thesis by simp
qed

text \<open>
  C5 (as the code behaves): when the source path does not exist, main ends at once
  with exit code 1 and a world that differs from the initial one only by the error
  line printed, so no file was written and the loader was never called.  When the
  source exists under a plain path, the chunk count is at least 1 and every loader
  call either returns code 0 or writes an error output that decodes, the exit code is
  0 however many chunks failed.
\<close>

theorem C5_exit_codes:
  "(files w args_file = None \<longrightarrow>
      main psql args_file num_chunks w
        = (Exit 1, w\<lparr>stdout := stdout w @ [ErrorNotExist args_file]\<rparr>))
   \<and> (plain_path args_file \<and> files w args_file \<noteq> None \<and> 1 \<le> num_chunks
        \<and> (\<forall>f \<in> set (map chunk_file_name (py_range num_chunks)). returns_result (psql f)) \<longrightarrow>
      exit_code (fst (main psql args_file num_chunks w)) = 0)"
  by (simp add: main_missing_file main_exit_0)

text \<open>
  The instances of C5 for a missing path, and for the example file with two chunks of
  which one fails with an error output that decodes.
\<close>

theorem C5_exit_codes_witness:
  "files example_world ''missing.txt'' = None
   \<and> main psql_ok ''missing.txt'' 8 example_world
       = (Exit 1, example_world\<lparr>stdout := stdout example_world @ [ErrorNotExist ''missing.txt'']\<rparr>)
   \<and> plain_path ''in.txt'' \<and> files example_world ''in.txt'' \<noteq> None \<and> (1::int) \<le> 2
   \<and> map chunk_file_name (py_range 2) = [''/tmp/taq_chunk_0.csv'', ''/tmp/taq_chunk_1.csv'']
   \<and> returns_result (psql_fail_1 ''/tmp/taq_chunk_0.csv'')
   \<and> returns_result (psql_fail_1 ''/tmp/taq_chunk_1.csv'')
   \<and> exit_code (fst (main psql_fail_1 ''in.txt'' 2 example_world)) = 0"
proof -
  have a: "files example_world ''missing.txt'' = None"
    and b: "files example_world ''in.txt'' \<noteq> None"
    by (simp_all add: example_world_def)
  have c: "plain_path ''in.txt''" by (simp add: plain_path_def)
  have d: "\<forall>f \<in> set (map chunk_file_name (py_range 2)). returns_result (psql_fail_1 f)"
    by (simp add: psql_fail_1_returns)
  have n: "(1::int) \<le> 2" by simp
  have names: "map chunk_file_name (py_range 2) = [''/tmp/taq_chunk_0.csv'', ''/tmp/taq_chunk_1.csv'']"
    by (simp add: py_range_2 chunk_file_name_def str_0_1_2)
  from a b c d n names psql_fail_1_returns
    C5_exit_codes [of example_world "''missing.txt''" psql_ok 8]
    C5_exit_codes [of example_world "''in.txt''" psql_fail_1 2]
  show ?thesis by blast
qed

text \<open>
  C5 as worded fails: "in every other case" includes an existing source with a chunk
  count of 0, where the division of line 70 raises and the process ends with an
  uncaught exception, exit code 1.
\<close>

theorem C5_zero_chunks_counterexample:
  "files example_world ''in.txt'' \<noteq> None
   \<and> fst (main psql_ok ''in.txt'' 0 example_world) = Uncaught ZeroDivisionError
   \<and> exit_code (fst (main psql_ok ''in.txt'' 0 example_world)) \<noteq> 0"
  by (simp add: main_zero_chunks example_world_def)

text \<open>
  C9: the chunk count reaches the division of line 70 unchecked.  For every chunk
  count of at least 1 the division returns the floor quotient; with a chunk count of 0
  and an existing source, main ends with an uncaught ZeroDivisionError after the
  cleaned file has been written and before any loader call.
\<close>

theorem C9_chunks_unchecked:
  "(1 \<le> num_chunks \<longrightarrow> floordiv total_lines num_chunks = Inr (total_lines div num_chunks))
   \<and> (files w args_file \<noteq> None \<longrightarrow>
        (\<exists>w'. main psql args_file 0 w = (Uncaught ZeroDivisionError, w')
              \<and> files w' clean_path = Some (cleaned_lines w args_file)
              \<and> psql_calls w' = psql_calls w))"
  by (simp add: floordiv_def main_zero_chunks)

text \<open>
  The instance of C9 for 100 lines and 8 chunks, and for the example file.
\<close>

theorem C9_chunks_unchecked_witness:
  "(1::int) \<le> 8 \<and> floordiv 100 8 = Inr (100 div 8)
   \<and> files example_world ''in.txt'' \<noteq> None
   \<and> (\<exists>w'. main psql_ok ''in.txt'' 0 example_world = (Uncaught ZeroDivisionError, w')
              \<and> files w' clean_path = Some (cleaned_lines example_world ''in.txt'')
              \<and> psql_calls w' = psql_calls example_world)"
  using C9_chunks_unchecked [of 8 100 example_world "''in.txt''" psql_ok]
  by (simp add: example_world_def)


text \<open>
  C6: the summary block never raises; the success count is the number of results
  with status SUCCESS; and an average line is printed exactly when that number is not
  zero, its value being the sum of the times of the SUCCESS results divided by their
  number.  Results of any other status contribute to neither.
\<close>

theorem C6_average_over_successes:
  "(let successes = filter (\<lambda>r. status r = ''SUCCESS'') results
    in snd (report_summary results) = None
       \<and> success_count results = int (length successes)
       \<and> (\<forall>a. AverageTime a \<in> set (fst (report_summary results))
              \<longleftrightarrow> successes \<noteq> [] \<and> a = sum_list (map time successes) / of_nat (length successes)))"
  by (auto simp add: Let_def report_summary_def truediv_def success_count_length success_time_def)

lemma set_temp_paths: "set (temp_paths n) = insert clean_path (chunk_file_name ` {0..<n})"
  by (simp add: temp_paths_def set_py_range)

lemma chunk_file_name_inj_on: "inj_on chunk_file_name {0..}"
  by (auto simp add: inj_on_def dest: chunk_file_name_inj)

text \<open>
  C8 (as the code behaves): the temporary paths are fixed.  The cleaned file is always
  \<open>/tmp/taq_clean\<close> and chunk \<open>i\<close> is always \<open>/tmp/taq_chunk_i.csv\<close>; within one
  run the paths are pairwise distinct; two runs with \<open>n\<close> and \<open>m\<close> chunks share
  exactly the paths of a run with \<open>min n m\<close> chunks; and a run on an existing source
  with at least one chunk has written all of its paths when the split is done.
\<close>

theorem C8_fixed_temp_names:
  "temp_paths n = ''/tmp/taq_clean'' # map (\<lambda>i. ''/tmp/taq_chunk_'' @ str i @ ''.csv'') (py_range n)
   \<and> distinct (temp_paths n)
   \<and> set (temp_paths n) \<inter> set (temp_paths m) = set (temp_paths (min n m))
   \<and> (files w args_file \<noteq> None \<and> 1 \<le> n \<longrightarrow>
        set (temp_paths n) \<subseteq> dom (split_files w args_file n))"
proof -
  have a: "temp_paths n = ''/tmp/taq_clean'' # map (\<lambda>i. ''/tmp/taq_chunk_'' @ str i @ ''.csv'') (py_range n)"
    by (simp add: temp_paths_def clean_path_def chunk_file_name_def)
  have b: "distinct (temp_paths n)"
    using distinct_temp [of n] by (simp add: temp_paths_def)
  have "chunk_file_name ` {0..<n} \<inter> chunk_file_name ` {0..<m} = chunk_file_name ` ({0..<n} \<inter> {0..<m})"
    by (rule inj_on_image_Int [OF chunk_file_name_inj_on, symmetric]) auto
  also have "{0..<n} \<inter> {0..<m} = {0..<min n m}" by auto
  finally have c: "set (temp_paths n) \<inter> set (temp_paths m) = set (temp_paths (min n m))"
    using chunk_file_name_not_clean by (auto simp add: set_temp_paths)
  have d: "set (temp_paths n) \<subseteq> dom (split_files w args_file n)"
    using split_files_temp [of n w args_file] by (simp add: temp_paths_def)
  from a b c d show ?thesis by blast
qed

text \<open>The instance of C8 for the example file, 3 chunks and 1 chunk.\<close>

theorem C8_fixed_temp_names_witness:
  "files example_world ''in.txt'' \<noteq> None \<and> (1::int) \<le> 3
   \<and> distinct (temp_paths 3)
   \<and> set (temp_paths 3) \<inter> set (temp_paths 1) = set (temp_paths (min 3 1))
   \<and> set (temp_paths 3) \<subseteq> dom (split_files example_world ''in.txt'' 3)"
proof -
  have ex: "files example_world ''in.txt'' \<noteq> None"
    by (simp add: example_world_def)
  have n: "(1::int) \<le> 3" by simp
  from ex n C8_fixed_temp_names [of 3 1 example_world "''in.txt''"]
  show ?thesis by blast
qed

text \<open>
  C8 as worded fails: the run of the example file with 3 chunks and the run with 1
  chunk are different runs, and both write \<open>/tmp/taq_clean\<close> and
  \<open>/tmp/taq_chunk_0.csv\<close>.
\<close>

theorem C8_shared_paths_counterexample:
  "(''in.txt'', 3::int) \<noteq> (''in.txt'', 1)
   \<and> ''/tmp/taq_clean'' \<in> set (temp_paths 3) \<inter> set (temp_paths 1)
   \<and> ''/tmp/taq_chunk_0.csv'' \<in> set (temp_paths 3) \<inter> set (temp_paths 1)
   \<and> ''/tmp/taq_clean'' \<in> dom (split_files example_world ''in.txt'' 3)
   \<and> ''/tmp/taq_clean'' \<in> dom (split_files example_world ''in.txt'' 1)"
proof -
  have "py_range 1 = [0]" by (simp add: py_range_def upto.simps)
  moreover have "clean_path \<in> dom (split_files example_world ''in.txt'' n)" for n
    using split_files_temp [of n example_world "''in.txt''"] by simp
  ultimately show ?thesis
    by (simp add: temp_paths_def py_range_3 chunk_file_name_def str_0_1_2 clean_path_def)
qed

lemma sorted_results_props:
  "sorted (map chunk (sorted_results results))" "mset (sorted_results results) = mset results"
  by (simp_all add: sorted_results_def)

text \<open>
  C7: the detail table lists the results sorted by ascending chunk index, and it
  holds the same results as were collected.  When the chunk indices of the results
  are 1 to \<open>N\<close>, the table of any reordering \<open>completed\<close> of the results lists the
  indices 1 to \<open>N\<close> in order and is the same table.
\<close>

theorem C7_detail_table_sorted:
  "sorted (map chunk (sorted_results results))
   \<and> mset (sorted_results results) = mset results
   \<and> report_details results =
        DetailedResults # map (\<lambda>r. ChunkLine (chunk r) (status r) (time r)) (sorted_results results)
   \<and> (mset (map chunk results) = mset [1..int N] \<and> mset completed = mset results \<longrightarrow>
        map chunk (sorted_results completed) = [1..int N]
        \<and> sorted_results completed = sorted_results results)"
proof -
  have "map chunk (sorted_results completed) = [1..int N]
        \<and> sorted_results completed = sorted_results results"
    if keys: "mset (map chunk results) = mset [1..int N]" and perm: "mset completed = mset results"
  proof -
    have "mset (map chunk (sorted_results completed)) = mset [1..int N]"
      using keys perm by (simp add: sorted_results_def)
    moreover have "sorted (map chunk (sorted_results completed))"
      by (rule sorted_results_props)
    ultimately have k: "map chunk (sorted_results completed) = [1..int N]"
      by (metis properties_for_sort sorted_sort_id sorted_upto)
    have "distinct (map chunk results)"
      using keys by (metis distinct_upto mset_eq_imp_distinct_iff)
    then have "inj_on chunk (set completed)"
      using perm by (metis distinct_map mset_eq_setD)
    with perm have "sort_key chunk completed = sorted_results results"
      by (intro sort_key_inj_key_eq) (simp_all add: sorted_results_props)
    with k show ?thesis by (simp add: sorted_results_def)
  qed
  then have imp: "mset (map chunk results) = mset [1..int N] \<and> mset completed = mset results \<longrightarrow>
        map chunk (sorted_results completed) = [1..int N]
        \<and> sorted_results completed = sorted_results results"
    by blast
  have a: "sorted (map chunk (sorted_results results))"
    and b: "mset (sorted_results results) = mset results"
    by (rule sorted_results_props)+
  have c: "report_details results =
        DetailedResults # map (\<lambda>r. ChunkLine (chunk r) (status r) (time r)) (sorted_results results)"
    by (simp add: report_details_def)
  from a b c imp show ?thesis by blast
qed

text \<open>
  The instance of C7 for three results handed over in reverse order.
\<close>

theorem C7_detail_table_sorted_witness:
  "(let r1 = \<lparr>chunk = 1, file = ''/tmp/taq_chunk_0.csv'', status = ''SUCCESS'', time = 3, result = 0\<rparr>;
        r2 = \<lparr>chunk = 2, file = ''/tmp/taq_chunk_1.csv'', status = ''FAILED'', time = 5, result = 1\<rparr>;
        r3 = \<lparr>chunk = 3, file = ''/tmp/taq_chunk_2.csv'', status = ''SUCCESS'', time = 2, result = 0\<rparr>
    in mset (map chunk [r1, r2, r3]) = mset [1..int 3]
       \<and> mset [r3, r2, r1] = mset [r1, r2, r3]
       \<and> map chunk (sorted_results [r3, r2, r1]) = [1..int 3]
       \<and> sorted_results [r3, r2, r1] = sorted_results [r1, r2, r3]
       \<and> report_details [r3, r2, r1] =
            [DetailedResults, ChunkLine 1 ''SUCCESS'' 3, ChunkLine 2 ''FAILED'' 5, ChunkLine 3 ''SUCCESS'' 2])"
proof -
  define r1 where "r1 = \<lparr>chunk = 1, file = ''/tmp/taq_chunk_0.csv'', status = ''SUCCESS'', time = 3, result = 0\<rparr>"
  define r2 where "r2 = \<lparr>chunk = 2, file = ''/tmp/taq_chunk_1.csv'', status = ''FAILED'', time = 5, result = 1\<rparr>"
  define r3 where "r3 = \<lparr>chunk = 3, file = ''/tmp/taq_chunk_2.csv'', status = ''SUCCESS'', time = 2, result = 0\<rparr>"
  have keys: "mset (map chunk [r1, r2, r3]) = mset [1..int 3]"
    by (simp add: r1_def r2_def r3_def upto.simps)
  have perm: "mset [r3, r2, r1] = mset [r1, r2, r3]"
    by (simp add: add_mset_commute)
  have s: "sorted_results [r1, r2, r3] = [r1, r2, r3]"
    by (simp add: sorted_results_def r1_def r2_def r3_def)
  from C7_detail_table_sorted [of "[r1, r2, r3]" 3 "[r3, r2, r1]"] keys perm
  have "map chunk (sorted_results [r3, r2, r1]) = [1..int 3]"
    and e: "sorted_results [r3, r2, r1] = sorted_results [r1, r2, r3]"
    and d: "report_details [r3, r2, r1] = DetailedResults #
        map (\<lambda>r. ChunkLine (chunk r) (status r) (time r)) (sorted_results [r3, r2, r1])"
    using C7_detail_table_sorted [of "[r3, r2, r1]" 3 "[r3, r2, r1]"] by blast+
  with keys perm s show ?thesis
    unfolding Let_def r1_def [symmetric] r2_def [symmetric] r3_def [symmetric]
    by (simp add: r1_def r2_def r3_def)
qed

text \<open>
  The instances of C6 for two successes and a failure (average 5/2, the failed
  chunk's 5 seconds left out) and for a single failure (no average line).
\<close>

theorem C6_average_over_successes_witness:
  "(let results =
          [\<lparr>chunk = 1, file = ''/tmp/taq_chunk_0.csv'', status = ''SUCCESS'', time = 3, result = 0\<rparr>,
           \<lparr>chunk = 2, file = ''/tmp/taq_chunk_1.csv'', status = ''FAILED'', time = 5, result = 1\<rparr>,
           \<lparr>chunk = 3, file = ''/tmp/taq_chunk_2.csv'', status = ''SUCCESS'', time = 2, result = 0\<rparr>]
    in report_summary results
         = ([TotalChunks 3, SuccessfulChunks 2, FailedChunks 1, AverageTime (5 / 2)], None)
       \<and> AverageTime (5 / 2) \<in> set (fst (report_summary results)))
   \<and> report_summary
         [\<lparr>chunk = 1, file = ''/tmp/taq_chunk_0.csv'', status = ''FAILED'', time = 4, result = 2\<rparr>]
       = ([TotalChunks 1, SuccessfulChunks 0, FailedChunks 1], None)"
proof -
  let ?rs = "[\<lparr>chunk = 1, file = ''/tmp/taq_chunk_0.csv'', status = ''SUCCESS'', time = 3, result = 0\<rparr>,
           \<lparr>chunk = 2, file = ''/tmp/taq_chunk_1.csv'', status = ''FAILED'', time = 5, result = 1\<rparr>,
           \<lparr>chunk = 3, file = ''/tmp/taq_chunk_2.csv'', status = ''SUCCESS'', time = 2, result = 0\<rparr>]"
  have "AverageTime (5 / 2) \<in> set (fst (report_summary ?rs))"
    using C6_average_over_successes [of ?rs] by (simp add: Let_def)
  then show ?thesis
    by (simp add: Let_def report_summary_def truediv_def success_count_def success_time_def)
qed


end
